theory Spec2Isabelle
  imports Main "HOL-Library.Multiset" "HOL-Library.Product_Lexorder"
begin

section \<open>StockMarginDetail: the incremental margin-detail cache\<close>

text \<open>
  A shallow embedding of \<^verbatim>\<open>sz/stock_data/market/margin_detail.py\<close>.

  The class \<^verbatim>\<open>StockMarginDetail\<close> keeps a table of margin-trading records in a CSV
  file and in the attribute \<^verbatim>\<open>self.dataframe\<close>. The file system, the directories made
  by \<^verbatim>\<open>os.makedirs\<close> and the history of calls to the remote provider are an explicit
  world that every method takes and returns; the object is a record; every exception is
  a value.

  What is outside the file is a parameter of the model (record \<open>env\<close>): the
  trading calendar, the provider call behind \<^verbatim>\<open>ts_margin_detail\<close> and the helper
  \<^verbatim>\<open>need_update_by_trade_date\<close>. Logging has no effect on any value and is left out.
  Failures of the operating system (no permission, a full disk) are not modelled:
  \<^verbatim>\<open>os.makedirs\<close> and \<^verbatim>\<open>to_csv\<close> succeed.
\<close>

subsection \<open>Exceptions\<close>

text \<open>
  The exceptions the code of this file can raise itself: reading an attribute of
  \<^verbatim>\<open>None\<close>; \<^verbatim>\<open>pd.read_csv\<close> on a file without columns (\<^verbatim>\<open>EmptyDataError\<close>) or
  without the column named in \<^verbatim>\<open>parse_dates\<close> (\<^verbatim>\<open>ValueError\<close>); \<^verbatim>\<open>pd.concat\<close> on no
  frames at all (\<^verbatim>\<open>ValueError\<close>); a frame indexed or sorted by a column it does not
  have (\<^verbatim>\<open>KeyError\<close>); a date moved past the last day of \<^verbatim>\<open>datetime.date\<close>
  (\<^verbatim>\<open>OverflowError\<close>). \<open>Raised\<close> stands for whatever the provider call or the absent
  helper raises.
\<close>

datatype exn =
  AttributeError | ValueError | EmptyDataError | KeyError | OverflowError | Raised string

subsection \<open>Dates and timestamps\<close>

text \<open>
  A \<^verbatim>\<open>datetime.date\<close> is its proleptic Gregorian ordinal (\<^verbatim>\<open>date.toordinal()\<close>), from 1
  for 0001-01-01 to \<open>MAXORDINAL\<close> for 9999-12-31. The constructor follows CPython's
  \<^verbatim>\<open>_ymd2ord\<close>; it is used for the one literal of the class, and the range checks
  of \<^verbatim>\<open>date(...)\<close> on month and day are not modelled. Adding a \<^verbatim>\<open>timedelta\<close> of whole
  days follows \<^verbatim>\<open>date.__add__\<close>: a result outside the range raises.

  A pandas \<^verbatim>\<open>Timestamp\<close> is a day and the nanoseconds into that day, ordered
  lexicographically; \<^verbatim>\<open>Timestamp.date()\<close> drops the second component. pandas counts
  nanoseconds in 64 bits, so the days of its timestamps run from 1677-09-21 to
  2262-04-11.
\<close>

type_synonym date = int

type_synonym timestamp = "int \<times> nat"

definition is_leap :: "int \<Rightarrow> bool" where
  "is_leap y = (y mod 4 = 0 \<and> (y mod 100 \<noteq> 0 \<or> y mod 400 = 0))"

definition days_before_year :: "int \<Rightarrow> int" where
  "days_before_year year =
     (let y = year - 1 in y * 365 + y div 4 - y div 100 + y div 400)"

definition days_before_month :: "int \<Rightarrow> int \<Rightarrow> int" where
  "days_before_month year month =
     [0, 31, 59, 90, 120, 151, 181, 212, 243, 273, 304, 334] ! nat (month - 1)
       + (if month > 2 \<and> is_leap year then 1 else 0)"

definition date :: "int \<Rightarrow> int \<Rightarrow> int \<Rightarrow> date" where
  "date year month dy = days_before_year year + days_before_month year month + dy"

definition MAXORDINAL :: int where
  "MAXORDINAL = 3652059"

definition add_days :: "date \<Rightarrow> int \<Rightarrow> exn + date" where
  "add_days d n =
     (let ordinal = d + n
      in if 0 < ordinal \<and> ordinal \<le> MAXORDINAL then Inr ordinal else Inl OverflowError)"

definition timestamp_date :: "timestamp \<Rightarrow> date" where
  "timestamp_date ts = fst ts"

definition Timestamp_min_day :: date where
  "Timestamp_min_day = date 1677 9 21"

definition Timestamp_max_day :: date where
  "Timestamp_max_day = date 2262 4 11"

definition valid_timestamp :: "timestamp \<Rightarrow> bool" where
  "valid_timestamp ts =
     (Timestamp_min_day \<le> timestamp_date ts \<and> timestamp_date ts \<le> Timestamp_max_day)"

subsection \<open>Paths\<close>

text \<open>
  \<^verbatim>\<open>posixpath.join\<close>: a component that starts with a slash replaces what came before;
  a separator is inserted only after a non-empty path that does not already end in one.
  \<^verbatim>\<open>posixpath.dirname\<close>: everything up to the last slash, with trailing slashes
  stripped unless the head consists of slashes only.
\<close>

definition sep :: char where
  "sep = CHR ''/''"

definition join_step :: "string \<Rightarrow> string \<Rightarrow> string" where
  "join_step path b =
     (if b \<noteq> [] \<and> hd b = sep then b
      else if path = [] \<or> last path = sep then path @ b
      else path @ [sep] @ b)"

definition os_path_join :: "string \<Rightarrow> string list \<Rightarrow> string" where
  "os_path_join a p = foldl join_step a p"

definition rstrip_sep :: "string \<Rightarrow> string" where
  "rstrip_sep s = rev (dropWhile (\<lambda>c. c = sep) (rev s))"

definition os_path_dirname :: "string \<Rightarrow> string" where
  "os_path_dirname p =
     (let head = rev (dropWhile (\<lambda>c. c \<noteq> sep) (rev p))
      in if head \<noteq> [] \<and> \<not> list_all (\<lambda>c. c = sep) head then rstrip_sep head else head)"

subsection \<open>Data frames\<close>

text \<open>
  A row carries the one column the code names, \<^verbatim>\<open>trade_date\<close>, the provider's entity
  key and the remaining provider cells. A frame is its column labels and its rows;
  \<^verbatim>\<open>pd.DataFrame()\<close> has neither. The cells under \<^verbatim>\<open>trade_date\<close> are kept as the
  timestamps they denote: what \<^verbatim>\<open>parse_dates\<close> and \<^verbatim>\<open>to_datetime64\<close> do to the text
  of a cell is not modelled. Whether a frame has the column at all is modelled, by its
  labels.
\<close>

record row =
  trade_date :: timestamp
  ts_code :: string
  cells :: "string list"

record dataframe =
  columns :: "string list"
  rows :: "row list"

definition DataFrame :: dataframe where
  "DataFrame = \<lparr>columns = [], rows = []\<rparr>"

text \<open>\<^verbatim>\<open>df.shape\<close> is the tuple (number of rows, number of columns).\<close>

definition shape :: "dataframe \<Rightarrow> nat list" where
  "shape df = [length (rows df), length (columns df)]"

text \<open>Python's \<^verbatim>\<open>not t\<close> on a tuple: true exactly for the empty tuple.\<close>

definition not_tuple :: "nat list \<Rightarrow> bool" where
  "not_tuple t = (length t = 0)"

text \<open>\<^verbatim>\<open>df.empty\<close>: some axis has length zero.\<close>

definition df_empty :: "dataframe \<Rightarrow> bool" where
  "df_empty df = (length (rows df) = 0 \<or> length (columns df) = 0)"

text \<open>Whether the frame has the column \<^verbatim>\<open>trade_date\<close>.\<close>

definition has_trade_date :: "dataframe \<Rightarrow> bool" where
  "has_trade_date df = (''trade_date'' \<in> set (columns df))"

text \<open>
  \<^verbatim>\<open>sort_values(by = 'trade_date')\<close> on a frame that has the column: ascending.
  pandas' default sort is not stable; the model takes the insertion sort of the
  library, and the theorems below use only that the result is ordered and has the same
  rows.
\<close>

definition sort_values :: "dataframe \<Rightarrow> dataframe" where
  "sort_values df = df\<lparr>rows := sort_key trade_date (rows df)\<rparr>"

text \<open>\<^verbatim>\<open>drop_duplicates()\<close> with no subset: a row equal in every column to an earlier
  row is dropped; the first occurrence stays.\<close>

fun keep_first :: "'a list \<Rightarrow> 'a list" where
  "keep_first [] = []"
| "keep_first (x # xs) = x # keep_first (removeAll x xs)"

definition drop_duplicates :: "dataframe \<Rightarrow> dataframe" where
  "drop_duplicates df = df\<lparr>rows := keep_first (rows df)\<rparr>"

text \<open>
  \<^verbatim>\<open>pd.read_csv(path, parse_dates = ['trade_date'])\<close> on the table a file holds: a
  file without columns raises \<^verbatim>\<open>EmptyDataError\<close>, a file without the column
  \<^verbatim>\<open>trade_date\<close> raises \<^verbatim>\<open>ValueError\<close>.
\<close>

definition read_csv :: "dataframe \<Rightarrow> exn + dataframe" where
  "read_csv csv =
     (if columns csv = [] then Inl EmptyDataError
      else if \<not> has_trade_date csv then Inl ValueError
      else Inr csv)"

subsection \<open>The world and the environment\<close>

text \<open>
  The world: the CSV files by path (the table each one holds), the directories
  \<^verbatim>\<open>os.makedirs\<close> was asked to ensure, and the trade dates for which
  \<^verbatim>\<open>ts_margin_detail\<close> was called, oldest first.
\<close>

record world =
  files :: "string \<rightharpoonup> dataframe"
  made_dirs :: "string set"
  fetched :: "date list"

text \<open>
  The collaborators: \<^verbatim>\<open>StockData().trade_calendar\<close> with its two queries, the helper
  \<^verbatim>\<open>need_update_by_trade_date(df, 'trade_date')\<close>, which receives
  \<^verbatim>\<open>self.dataframe\<close> as it is, and the rate-limited provider query for one day, whose
  answer may depend on the calls made before it.
\<close>

record env =
  latest_trade_day :: date
  trade_day_between :: "date \<Rightarrow> date \<Rightarrow> date list"
  need_update :: "dataframe option \<Rightarrow> exn + bool"
  margin_detail :: "date list \<Rightarrow> date \<Rightarrow> exn + dataframe"

subsection \<open>The class\<close>

record StockMarginDetail =
  data_dir :: string
  dataframe :: "dataframe option"

definition base_date :: date where
  "base_date = date 2014 9 22"

definition init :: "string \<Rightarrow> StockMarginDetail" where
  "init d = \<lparr>data_dir = d, dataframe = None\<rparr>"

definition file_path :: "StockMarginDetail \<Rightarrow> string" where
  "file_path self = os_path_join (data_dir self) [''market'', ''margin_trading_detail.csv'']"

definition os_path_exists :: "world \<Rightarrow> string \<Rightarrow> bool" where
  "os_path_exists w p = (files w p \<noteq> None)"

definition setup_dir :: "world \<Rightarrow> StockMarginDetail \<Rightarrow> world" where
  "setup_dir w self = w\<lparr>made_dirs := insert (os_path_dirname (file_path self)) (made_dirs w)\<rparr>"

text \<open>
  \<^verbatim>\<open>load\<close> sets \<^verbatim>\<open>self.dataframe\<close> and returns it. When \<^verbatim>\<open>read_csv\<close> raises, the
  exception leaves \<^verbatim>\<open>load\<close> and the object is as it was.
\<close>

definition load :: "world \<Rightarrow> StockMarginDetail \<Rightarrow> exn + StockMarginDetail \<times> dataframe" where
  "load w self =
     (case files w (file_path self) of
        Some csv \<Rightarrow>
          (case read_csv csv of
             Inl ex \<Rightarrow> Inl ex
           | Inr parsed \<Rightarrow> (let df = sort_values parsed in Inr (self\<lparr>dataframe := Some df\<rparr>, df)))
      | None \<Rightarrow> Inr (self\<lparr>dataframe := Some DataFrame\<rparr>, DataFrame))"

definition prepare :: "world \<Rightarrow> StockMarginDetail \<Rightarrow> exn + StockMarginDetail" where
  "prepare w self =
     (if dataframe self = None then
        (case load w self of Inl ex \<Rightarrow> Inl ex | Inr (self', df) \<Rightarrow> Inr self')
      else Inr self)"

definition should_update ::
  "env \<Rightarrow> world \<Rightarrow> StockMarginDetail \<Rightarrow> StockMarginDetail \<times> (exn + bool)" where
  "should_update e w self =
     (if \<not> os_path_exists w (file_path self) then (self, Inr True)
      else (case prepare w self of
              Inl ex \<Rightarrow> (self, Inl ex)
            | Inr self' \<Rightarrow> (self', need_update e (dataframe self'))))"

text \<open>
  \<^verbatim>\<open>ts_margin_detail\<close>: one provider call for the day, recorded in the world. The
  assignment to \<^verbatim>\<open>df['trade_date']\<close> reads that column, so an answer without it raises
  \<^verbatim>\<open>KeyError\<close>; otherwise the frame comes back sorted by trade date.
\<close>

definition ts_margin_detail :: "env \<Rightarrow> world \<Rightarrow> date \<Rightarrow> world \<times> (exn + dataframe)" where
  "ts_margin_detail e w d =
     (let w' = w\<lparr>fetched := fetched w @ [d]\<rparr>
      in case margin_detail e (fetched w) d of
           Inl ex \<Rightarrow> (w', Inl ex)
         | Inr df \<Rightarrow>
             if \<not> has_trade_date df then (w', Inl KeyError)
             else (w', Inr (sort_values df)))"

text \<open>
  \<^verbatim>\<open>start_date\<close>: the last row of a table that is not empty is read at
  \<^verbatim>\<open>trade_date\<close> (\<^verbatim>\<open>KeyError\<close> without that column), and one day is added to its date
  (\<^verbatim>\<open>OverflowError\<close> past the last date).
\<close>

definition start_date ::
  "world \<Rightarrow> StockMarginDetail \<Rightarrow> StockMarginDetail \<times> (exn + date)" where
  "start_date w self =
     (case prepare w self of
        Inl ex \<Rightarrow> (self, Inl ex)
      | Inr self' \<Rightarrow>
          (case dataframe self' of
             None \<Rightarrow> (self', Inl AttributeError)
           | Some df \<Rightarrow>
               if df_empty df then (self', Inr base_date)
               else if \<not> has_trade_date df then (self', Inl KeyError)
               else (self', add_days (timestamp_date (trade_date (last (rows df)))) 1)))"

text \<open>
  \<^verbatim>\<open>pd.concat\<close> drops the \<^verbatim>\<open>None\<close> entries and raises \<^verbatim>\<open>ValueError\<close> when nothing
  is left; the result has the columns of all frames in order of first appearance and
  the rows of all frames in order.
\<close>

definition concat_frames :: "dataframe option list \<Rightarrow> exn + dataframe" where
  "concat_frames objs =
     (let dfs = List.map_filter (\<lambda>x. x) objs
      in if dfs = [] then Inl ValueError
         else Inr \<lparr>columns = keep_first (concat (map columns dfs)),
                   rows = concat (map rows dfs)\<rparr>)"

text \<open>The body of the \<^verbatim>\<open>for\<close> loop under \<^verbatim>\<open>try\<close>: it stops at the first exception.\<close>

fun fetch_loop ::
  "env \<Rightarrow> date list \<Rightarrow> world \<Rightarrow> dataframe option list
     \<Rightarrow> exn option \<times> world \<times> dataframe option list" where
  "fetch_loop e [] w df_list = (None, w, df_list)"
| "fetch_loop e (d # ds) w df_list =
     (case ts_margin_detail e w d of
        (w', Inl ex) \<Rightarrow> (Some ex, w', df_list)
      | (w', Inr df) \<Rightarrow>
          fetch_loop e ds w' (if not_tuple (shape df) then df_list @ [Some df] else df_list))"

text \<open>
  The \<^verbatim>\<open>finally\<close> block. With more than one entry in the list, the concatenation
  without duplicates is assigned to \<^verbatim>\<open>self.dataframe\<close>, then sorted in place by
  \<^verbatim>\<open>trade_date\<close> (\<^verbatim>\<open>KeyError\<close> when no frame brought that column), then written.
\<close>

definition finally_block ::
  "world \<Rightarrow> StockMarginDetail \<Rightarrow> dataframe option list
     \<Rightarrow> exn option \<times> world \<times> StockMarginDetail" where
  "finally_block w self df_list =
     (if length df_list > 1 then
        (case concat_frames df_list of
           Inl ex \<Rightarrow> (Some ex, w, self)
         | Inr whole \<Rightarrow>
             (let merged = drop_duplicates whole;
                  self1 = self\<lparr>dataframe := Some merged\<rparr>
              in if \<not> has_trade_date merged then (Some KeyError, w, self1)
                 else (let df = sort_values merged
                       in (None, w\<lparr>files := (files w)(file_path self \<mapsto> df)\<rparr>,
                           self1\<lparr>dataframe := Some df\<rparr>))))
      else (None, w, self))"

text \<open>
  \<^verbatim>\<open>update\<close>. The result is the exception that leaves the method, if any, with the
  world and the object as they are then. An exception raised inside \<^verbatim>\<open>finally\<close>
  replaces the one from the loop.
\<close>

definition update ::
  "env \<Rightarrow> world \<Rightarrow> StockMarginDetail \<Rightarrow> exn option \<times> world \<times> StockMarginDetail" where
  "update e w self =
     (let w1 = setup_dir w self
      in case prepare w1 self of
           Inl ex \<Rightarrow> (Some ex, w1, self)
         | Inr self1 \<Rightarrow>
            (case should_update e w1 self1 of
               (self2, Inl ex) \<Rightarrow> (Some ex, w1, self2)
             | (self2, Inr False) \<Rightarrow> (None, w1, self2)
             | (self2, Inr True) \<Rightarrow>
                 (let last_trade_day = latest_trade_day e;
                      df_list = [dataframe self2]
                  in case start_date w1 self2 of
                       (self3, Inl ex) \<Rightarrow> (Some ex, w1, self3)
                     | (self3, Inr from_date) \<Rightarrow>
                         (let trad_date_list = trade_day_between e from_date last_trade_day;
                              (raised, w2, df_list') = fetch_loop e trad_date_list w1 df_list;
                              (raised', w3, self4) = finally_block w2 self3 df_list'
                          in (case raised' of Some ex \<Rightarrow> Some ex | None \<Rightarrow> raised,
                              w3, self4)))))"

subsection \<open>Notions the statements use\<close>

text \<open>The calendar day of a row, and the pair (date, entity) of a row.\<close>

definition row_date :: "row \<Rightarrow> date" where
  "row_date r = timestamp_date (trade_date r)"


text \<open>The largest trade date of a table; a table without rows has none.\<close>

definition max_trade_date :: "dataframe \<Rightarrow> date option" where
  "max_trade_date df =
     (if rows df = [] then None else Some (Max (set (map row_date (rows df)))))"

text \<open>Every trade date of the table is a timestamp pandas can hold.\<close>

definition valid_frame :: "dataframe \<Rightarrow> bool" where
  "valid_frame df = list_all (\<lambda>r. valid_timestamp (trade_date r)) (rows df)"

text \<open>
  The cached table of an object in a world: the table in memory once one is loaded,
  otherwise the table of the cache file, otherwise the empty table.
\<close>

definition cached_table :: "world \<Rightarrow> StockMarginDetail \<Rightarrow> dataframe" where
  "cached_table w self =
     (case dataframe self of
        Some df \<Rightarrow> df
      | None \<Rightarrow> (case files w (file_path self) of Some csv \<Rightarrow> csv | None \<Rightarrow> DataFrame))"

text \<open>
  The cache file, when there is one, is a CSV table with a \<^verbatim>\<open>trade_date\<close> column, as
  the specification describes the file.
\<close>

definition cache_readable :: "world \<Rightarrow> StockMarginDetail \<Rightarrow> bool" where
  "cache_readable w self =
     (case files w (file_path self) of None \<Rightarrow> True | Some csv \<Rightarrow> has_trade_date csv)"

text \<open>
  The table in memory, when there is one, is in trade-date order and, unless it is
  empty, has the \<^verbatim>\<open>trade_date\<close> column. A new object has no table, and \<^verbatim>\<open>load\<close>
  assigns only tables of this kind.
\<close>

definition well_loaded :: "StockMarginDetail \<Rightarrow> bool" where
  "well_loaded self =
     (case dataframe self of
        None \<Rightarrow> True
      | Some df \<Rightarrow> sorted (map trade_date (rows df)) \<and> (df_empty df \<or> has_trade_date df))"




text \<open>
  The components of a path: the maximal runs of characters other than the separator.
  Two paths with the same components that are both absolute or both relative name the
  same file.
\<close>

fun split_path :: "string \<Rightarrow> string \<Rightarrow> string list" where
  "split_path cur [] = (if cur = [] then [] else [rev cur])"
| "split_path cur (c # cs) =
     (if c = sep then (if cur = [] then split_path [] cs else rev cur # split_path [] cs)
      else split_path (c # cur) cs)"

definition components :: "string \<Rightarrow> string list" where
  "components p = split_path [] p"

definition is_absolute :: "string \<Rightarrow> bool" where
  "is_absolute p = (p \<noteq> [] \<and> hd p = sep)"

text \<open>
  Modelled from the spec: \<^verbatim>\<open>need_update_by_trade_date\<close> of
  \<^verbatim>\<open>sz.stock_data.toolbox.helper\<close>, which is not among the sources. The specification
  says of \<^verbatim>\<open>should_update\<close>: true if no cache file exists, or if the cached max date is
  older than the latest known trading day. The helper is the second half: the largest
  trade date of the table it is given is older than the latest trading day. Given
  \<^verbatim>\<open>None\<close> it has no table to read.
\<close>

definition need_update_by_trade_date :: "date \<Rightarrow> dataframe option \<Rightarrow> exn + bool" where
  "need_update_by_trade_date latest dfo =
     (case dfo of
        None \<Rightarrow> Inl AttributeError
      | Some df \<Rightarrow>
          (case max_trade_date df of None \<Rightarrow> Inr False | Some m \<Rightarrow> Inr (m < latest)))"

subsection \<open>Concrete inputs\<close>

text \<open>
  A provider row for a day, a frame with the provider's columns, a world without files
  and a world with one file. The environment \<open>demo_env latest bad\<close> has a calendar in
  which every day is a trading day, the helper as specified, and a provider that
  answers one row for the day asked, except on the day \<open>bad\<close>, where it raises.
\<close>

definition demo_row :: "date \<Rightarrow> string \<Rightarrow> string \<Rightarrow> row" where
  "demo_row d code v = \<lparr>trade_date = (d, 0), ts_code = code, cells = [v]\<rparr>"

definition demo_frame :: "row list \<Rightarrow> dataframe" where
  "demo_frame rs = \<lparr>columns = [''trade_date'', ''ts_code'', ''rzye''], rows = rs\<rparr>"

definition demo_env :: "date \<Rightarrow> date \<Rightarrow> env" where
  "demo_env latest bad =
     \<lparr>latest_trade_day = latest,
      trade_day_between = (\<lambda>a b. [a..b]),
      need_update = need_update_by_trade_date latest,
      margin_detail = (\<lambda>log d. if d = bad then Inl (Raised ''timeout'')
                                else Inr (demo_frame [demo_row d ''000001.SZ'' ''100'']))\<rparr>"

definition no_files :: world where
  "no_files = \<lparr>files = Map.empty, made_dirs = {}, fetched = []\<rparr>"

definition one_file :: "string \<Rightarrow> dataframe \<Rightarrow> world" where
  "one_file p csv = \<lparr>files = [p \<mapsto> csv], made_dirs = {}, fetched = []\<rparr>"

section \<open>Properties\<close>

subsection \<open>Dates, paths and frames\<close>

lemma base_date_ordinal: "base_date = 735498"
  by (simp add: base_date_def date_def days_before_year_def days_before_month_def is_leap_def)

lemma MAXORDINAL_date: "MAXORDINAL = date 9999 12 31"
  by (simp add: MAXORDINAL_def date_def days_before_year_def days_before_month_def is_leap_def)

lemma Timestamp_min_day_ordinal: "Timestamp_min_day = 612411"
  by (simp add: Timestamp_min_day_def date_def days_before_year_def days_before_month_def
      is_leap_def)

lemma Timestamp_max_day_ordinal: "Timestamp_max_day = 825914"
  by (simp add: Timestamp_max_day_def date_def days_before_year_def days_before_month_def
      is_leap_def)

text \<open>The day after a timestamp pandas can hold is a date.\<close>

lemma add_days_valid:
  "valid_timestamp ts \<Longrightarrow> add_days (timestamp_date ts) 1 = Inr (timestamp_date ts + 1)"
  by (simp add: valid_timestamp_def add_days_def MAXORDINAL_def Timestamp_min_day_ordinal
      Timestamp_max_day_ordinal)

text \<open>There is no day after the last date.\<close>

lemma add_days_overflow: "add_days (date 9999 12 31) 1 = Inl OverflowError"
  by (simp add: add_days_def MAXORDINAL_date [symmetric])

lemma file_path_data: "file_path (init ''data'') = ''data/market/margin_trading_detail.csv''"
  by (simp add: file_path_def init_def os_path_join_def join_step_def sep_def)

lemma dirname_data: "os_path_dirname ''data/market/margin_trading_detail.csv'' = ''data/market''"
  by (simp add: os_path_dirname_def rstrip_sep_def sep_def)

lemma file_path_string:
  "file_path self =
     (if data_dir self = [] \<or> last (data_dir self) = sep
      then data_dir self @ ''market/margin_trading_detail.csv''
      else data_dir self @ ''/market/margin_trading_detail.csv'')"
  by (simp add: file_path_def os_path_join_def join_step_def sep_def)

lemma split_path_append_sep:
  "split_path cur (xs @ sep # ys) = split_path cur xs @ split_path [] ys"
  by (induction xs arbitrary: cur) auto

lemma components_append_sep: "components (xs @ sep # ys) = components xs @ components ys"
  by (simp add: components_def split_path_append_sep)

lemma components_snoc_sep: "components (xs @ [sep]) = components xs"
  using components_append_sep [of xs "[]"] by (simp add: components_def)

lemma components_tail:
  "components ''market/margin_trading_detail.csv'' = [''market'', ''margin_trading_detail.csv'']"
  by (simp add: components_def sep_def)

lemma shape_not_empty: "\<not> not_tuple (shape df)"
  by (simp add: not_tuple_def shape_def)

lemma timestamp_date_mono: "a \<le> b \<Longrightarrow> timestamp_date a \<le> timestamp_date b"
  by (cases a; cases b) (auto simp: timestamp_date_def less_eq_prod_def)

lemma sorted_row_date: "sorted (map trade_date rs) \<Longrightarrow> sorted (map row_date rs)"
  by (induction rs) (auto simp: row_date_def timestamp_date_mono)

lemma last_sorted_Max: "xs \<noteq> [] \<Longrightarrow> sorted xs \<Longrightarrow> last xs = Max (set xs)"
proof (induction xs)
  case Nil
  then show ?case by simp
next
  case (Cons x xs)
  show ?case
  proof (cases "xs = []")
    case True
    then show ?thesis by simp
  next
    case False
    have "last xs = Max (set xs)"
      using Cons False by simp
    moreover have "x \<le> last xs"
      using Cons.prems False by simp
    ultimately show ?thesis
      using False by (simp add: max_def)
  qed
qed

lemma last_row_date:
  assumes "rs \<noteq> []" "sorted (map trade_date rs)"
  shows "row_date (last rs) = Max (set (map row_date rs))"
proof -
  have "last (map row_date rs) = Max (set (map row_date rs))"
    using assms by (intro last_sorted_Max) (simp_all add: sorted_row_date)
  then show ?thesis
    using assms(1) by (simp add: last_map)
qed

lemma sort_key_Nil_iff: "sort_key f xs = [] \<longleftrightarrow> xs = []"
  by (metis length_0_conv length_sort)

lemma sort_values_rows: "mset (rows (sort_values df)) = mset (rows df)"
  by (simp add: sort_values_def)

lemma sort_values_set: "set (rows (sort_values df)) = set (rows df)"
  by (simp add: sort_values_def)

lemma sort_values_sorted: "sorted (map trade_date (rows (sort_values df)))"
  by (simp add: sort_values_def)

lemma sort_values_columns: "columns (sort_values df) = columns df"
  by (simp add: sort_values_def)

lemma sort_values_empty: "df_empty (sort_values df) = df_empty df"
  by (simp add: sort_values_def df_empty_def)

lemma sort_values_has_trade_date: "has_trade_date (sort_values df) = has_trade_date df"
  by (simp add: sort_values_def has_trade_date_def)

lemma sort_values_valid: "valid_frame (sort_values df) = valid_frame df"
  by (simp add: valid_frame_def list_all_iff sort_values_set)

lemma max_trade_date_sort: "max_trade_date (sort_values df) = max_trade_date df"
  by (simp add: max_trade_date_def sort_values_def sort_key_Nil_iff)

lemma set_keep_first: "set (keep_first xs) = set xs"
  by (induction xs rule: keep_first.induct) auto

lemma distinct_keep_first: "distinct (keep_first xs)"
  by (induction xs rule: keep_first.induct) (auto simp: set_keep_first)

lemma read_csv_readable: "has_trade_date csv \<Longrightarrow> read_csv csv = Inr csv"
  by (auto simp: read_csv_def has_trade_date_def)

lemma read_csv_raises: "\<not> has_trade_date csv \<Longrightarrow> \<exists>ex. read_csv csv = Inl ex"
  by (simp add: read_csv_def)

text \<open>A table without duplicates, sorted, is in trade-date order and has no row twice.\<close>

lemma merged_sorted_distinct:
  "sorted (map trade_date (rows (sort_values (drop_duplicates df))))
   \<and> distinct (rows (sort_values (drop_duplicates df)))"
  by (simp add: sort_values_def drop_duplicates_def distinct_keep_first)

subsection \<open>Loading\<close>

lemma load_missing:
  "files w (file_path self) = None \<Longrightarrow>
     load w self = Inr (self\<lparr>dataframe := Some DataFrame\<rparr>, DataFrame)"
  by (simp add: load_def)

lemma load_readable:
  "files w (file_path self) = Some csv \<Longrightarrow> has_trade_date csv \<Longrightarrow>
     load w self = Inr (self\<lparr>dataframe := Some (sort_values csv)\<rparr>, sort_values csv)"
  by (simp add: load_def read_csv_readable Let_def)

text \<open>A cache file without the column makes \<^verbatim>\<open>load\<close> raise.\<close>

lemma load_unreadable:
  "files w (file_path self) = Some csv \<Longrightarrow> \<not> has_trade_date csv \<Longrightarrow> \<exists>ex. load w self = Inl ex"
  using read_csv_raises [of csv] by (auto simp: load_def)

lemma prepare_loaded: "dataframe self \<noteq> None \<Longrightarrow> prepare w self = Inr self"
  by (auto simp: prepare_def)

lemma prepare_result:
  assumes "prepare w self = Inr self'"
  shows "dataframe self' =
           Some (case dataframe self of
                   Some df \<Rightarrow> df
                 | None \<Rightarrow> (case files w (file_path self) of
                              Some csv \<Rightarrow> sort_values csv | None \<Rightarrow> DataFrame))"
    and "data_dir self' = data_dir self"
  using assms
  by (auto simp: prepare_def load_def read_csv_def Let_def split: option.splits if_splits)

lemma prepare_readable:
  assumes "cache_readable w self"
  shows "\<exists>self'. prepare w self = Inr self'"
proof (cases "dataframe self")
  case (Some df)
  then show ?thesis
    by (simp add: prepare_def)
next
  case None
  show ?thesis
  proof (cases "files w (file_path self)")
    case None
    then show ?thesis
      using \<open>dataframe self = None\<close> by (simp add: prepare_def load_missing)
  next
    case (Some csv)
    then have "has_trade_date csv"
      using assms by (simp add: cache_readable_def)
    then show ?thesis
      using Some \<open>dataframe self = None\<close> by (simp add: prepare_def load_readable)
  qed
qed

lemma prepare_again: "prepare w self = Inr self' \<Longrightarrow> prepare w' self' = Inr self'"
  using prepare_result(1) [of w self self'] by (simp add: prepare_loaded)

lemma prepare_setup_dir: "prepare (setup_dir w self') self = prepare w self"
  by (simp add: prepare_def load_def setup_dir_def)

lemma init_well_loaded: "well_loaded (init d)"
  by (simp add: well_loaded_def init_def)

lemma load_well_loaded: "load w self = Inr (self', df) \<Longrightarrow> well_loaded self'"
  by (auto simp: well_loaded_def load_def read_csv_def Let_def DataFrame_def df_empty_def
      sort_values_sorted sort_values_has_trade_date split: option.splits if_splits)

lemma prepare_well_loaded:
  "well_loaded self \<Longrightarrow> prepare w self = Inr self' \<Longrightarrow> well_loaded self'"
  using load_well_loaded [of w self self']
  by (auto simp: prepare_def split: if_splits sum.splits)

lemma prepare_cached_max:
  "prepare w self = Inr self' \<Longrightarrow>
     \<exists>df. dataframe self' = Some df \<and> max_trade_date df = max_trade_date (cached_table w self)"
  using prepare_result(1) [of w self self']
  by (auto simp: cached_table_def max_trade_date_sort split: option.splits)

lemma should_update_self:
  "dataframe self \<noteq> None \<Longrightarrow> fst (should_update e w self) = self"
  by (simp add: should_update_def prepare_loaded)

lemma start_date_self:
  "dataframe self \<noteq> None \<Longrightarrow> fst (start_date w self) = self"
  by (auto simp: start_date_def prepare_loaded split: option.splits)

lemma start_date_loaded:
  assumes "dataframe self = Some df" "sorted (map trade_date (rows df))"
    and "df_empty df \<or> has_trade_date df" "valid_frame df"
  shows "start_date w self =
           (self, Inr (if df_empty df then base_date
                       else Max (set (map row_date (rows df))) + 1))"
proof (cases "df_empty df")
  case True
  then show ?thesis
    using assms(1) by (simp add: start_date_def prepare_loaded)
next
  case False
  then have ne: "rows df \<noteq> []"
    by (auto simp: df_empty_def)
  then have m: "row_date (last (rows df)) = Max (set (map row_date (rows df)))"
    using assms(2) by (rule last_row_date)
  have "last (rows df) \<in> set (rows df)"
    using ne by simp
  then have "valid_timestamp (trade_date (last (rows df)))"
    using assms(4) by (simp add: valid_frame_def list_all_iff)
  then have "add_days (timestamp_date (trade_date (last (rows df)))) 1
               = Inr (row_date (last (rows df)) + 1)"
    by (simp add: add_days_valid row_date_def)
  then show ?thesis
    using False assms(1,3) m by (simp add: start_date_def prepare_loaded)
qed

subsection \<open>The fetch loop and the shape of an update\<close>

lemma ts_margin_detail_world:
  "\<exists>r. ts_margin_detail e w d = (w\<lparr>fetched := fetched w @ [d]\<rparr>, r)"
  by (simp add: ts_margin_detail_def Let_def split: sum.splits)

lemma fetch_loop_world:
  "\<exists>raised log. fetch_loop e ds w df_list = (raised, w\<lparr>fetched := log\<rparr>, df_list)"
proof (induction ds arbitrary: w)
  case Nil
  have "fetch_loop e [] w df_list = (None, w\<lparr>fetched := fetched w\<rparr>, df_list)"
    by simp
  then show ?case
    by blast
next
  case (Cons d ds)
  let ?w' = "w\<lparr>fetched := fetched w @ [d]\<rparr>"
  obtain r where t: "ts_margin_detail e w d = (?w', r)"
    using ts_margin_detail_world by blast
  show ?case
  proof (cases r)
    case (Inl ex)
    then have "fetch_loop e (d # ds) w df_list = (Some ex, ?w', df_list)"
      using t by simp
    then show ?thesis
      by blast
  next
    case (Inr df)
    obtain raised log where
      "fetch_loop e ds ?w' df_list = (raised, ?w'\<lparr>fetched := log\<rparr>, df_list)"
      using Cons.IH by blast
    then have "fetch_loop e (d # ds) w df_list = (raised, w\<lparr>fetched := log\<rparr>, df_list)"
      using t Inr by (simp add: shape_not_empty)
    then show ?thesis
      by blast
  qed
qed

lemma fetch_loop_df_list: "snd (snd (fetch_loop e ds w df_list)) = df_list"
  using fetch_loop_world [of e ds w df_list] by auto

text \<open>The loop stops at the first day whose fetch raises, and hands the exception on.\<close>

lemma fetch_loop_raise:
  "margin_detail e (fetched w) d = Inl ex \<Longrightarrow>
     fetch_loop e (d # ds) w df_list = (Some ex, w\<lparr>fetched := fetched w @ [d]\<rparr>, df_list)"
  by (simp add: ts_margin_detail_def)

text \<open>
  When every answer of the provider is a frame with the \<^verbatim>\<open>trade_date\<close> column, every
  day of the list is fetched, in order.
\<close>

lemma fetch_loop_all:
  "(\<And>log d. \<exists>df. margin_detail e log d = Inr df \<and> has_trade_date df) \<Longrightarrow>
     fetch_loop e ds w df_list = (None, w\<lparr>fetched := fetched w @ ds\<rparr>, df_list)"
proof (induction ds arbitrary: w)
  case Nil
  show ?case by simp
next
  case (Cons d ds)
  obtain df where "margin_detail e (fetched w) d = Inr df" "has_trade_date df"
    using Cons.prems by blast
  then show ?case
    using Cons.IH [OF Cons.prems, of "w\<lparr>fetched := fetched w @ [d]\<rparr>"]
    by (simp add: ts_margin_detail_def shape_not_empty)
qed

lemma finally_block_single:
  "length df_list \<le> 1 \<Longrightarrow> finally_block w self df_list = (None, w, self)"
  by (simp add: finally_block_def)

text \<open>
  What a call of \<^verbatim>\<open>update\<close> comes to: the directory is ensured, some fetches are
  recorded, the object is as it was or holds the prepared table, and nothing else
  changes.
\<close>

lemma update_result:
  "\<exists>raised log self'.
     update e w self = (raised, (setup_dir w self)\<lparr>fetched := log\<rparr>, self')
     \<and> (self' = self \<or> prepare w self = Inr self')"
proof -
  let ?w1 = "setup_dir w self"
  have p: "prepare ?w1 self = prepare w self"
    by (rule prepare_setup_dir)
  show ?thesis
  proof (cases "prepare w self")
    case (Inl ex)
    then have "update e w self = (Some ex, ?w1\<lparr>fetched := fetched ?w1\<rparr>, self)"
      by (simp add: update_def p)
    then show ?thesis
      by blast
  next
    case (Inr self1)
    then have d1: "dataframe self1 \<noteq> None"
      using prepare_result(1) by blast
    obtain r where su: "should_update e ?w1 self1 = (self1, r)"
      using should_update_self [OF d1, of e ?w1] by (cases "should_update e ?w1 self1") auto
    obtain r' where sd: "start_date ?w1 self1 = (self1, r')"
      using start_date_self [OF d1, of ?w1] by (cases "start_date ?w1 self1") auto
    show ?thesis
    proof (cases r)
      case (Inl ex)
      then have "update e w self = (Some ex, ?w1\<lparr>fetched := fetched ?w1\<rparr>, self1)"
        using su Inr by (simp add: update_def p)
      then show ?thesis
        using Inr by blast
    next
      case b: (Inr b)
      show ?thesis
      proof (cases b)
        case False
        then have "update e w self = (None, ?w1\<lparr>fetched := fetched ?w1\<rparr>, self1)"
          using su b Inr by (simp add: update_def p)
        then show ?thesis
          using Inr by blast
      next
        case True
        show ?thesis
        proof (cases r')
          case (Inl ex)
          then have "update e w self = (Some ex, ?w1\<lparr>fetched := fetched ?w1\<rparr>, self1)"
            using su sd b True Inr by (simp add: update_def p)
          then show ?thesis
            using Inr by blast
        next
          case from_date: (Inr from_date)
          obtain raised log where
            fl: "fetch_loop e (trade_day_between e from_date (latest_trade_day e)) ?w1
                   [dataframe self1] = (raised, ?w1\<lparr>fetched := log\<rparr>, [dataframe self1])"
            using fetch_loop_world by blast
          have "update e w self = (raised, ?w1\<lparr>fetched := log\<rparr>, self1)"
            using su sd b True from_date fl Inr
            by (simp add: update_def p finally_block_single)
          then show ?thesis
            using Inr by blast
        qed
      qed
    qed
  qed
qed

lemma update_files: "files (fst (snd (update e w self))) = files w"
  using update_result [of e w self] by (auto simp: setup_dir_def)

lemma update_data_dir: "data_dir (snd (snd (update e w self))) = data_dir self"
  using update_result [of e w self] prepare_result(2) [of w self] by auto

lemma update_well_loaded:
  "well_loaded self \<Longrightarrow> well_loaded (snd (snd (update e w self)))"
  using update_result [of e w self] prepare_well_loaded [of self w] by auto


text \<open>
  When an update is due, the cache can be read and no fetch fails, \<^verbatim>\<open>update\<close> fetches
  every day the calendar lists from the start date to the latest trading day, in
  order, and returns normally.
\<close>

lemma update_fetches_all_days:
  assumes "prepare w self = Inr self1"
    and "snd (should_update e (setup_dir w self) self1) = Inr True"
    and "snd (start_date (setup_dir w self) self1) = Inr from_date"
    and "\<And>log d. \<exists>df. margin_detail e log d = Inr df \<and> has_trade_date df"
  shows "update e w self =
           (None,
            (setup_dir w self)\<lparr>fetched :=
               fetched w @ trade_day_between e from_date (latest_trade_day e)\<rparr>,
            self1)"
proof -
  let ?w1 = "setup_dir w self"
  have p: "prepare ?w1 self = Inr self1"
    using assms(1) by (simp add: prepare_setup_dir)
  have d1: "dataframe self1 \<noteq> None"
    using assms(1) prepare_result(1) by blast
  have su: "should_update e ?w1 self1 = (self1, Inr True)"
    using should_update_self [OF d1, of e ?w1] assms(2)
    by (cases "should_update e ?w1 self1") auto
  have sd: "start_date ?w1 self1 = (self1, Inr from_date)"
    using start_date_self [OF d1, of ?w1] assms(3)
    by (cases "start_date ?w1 self1") auto
  have fl: "fetch_loop e (trade_day_between e from_date (latest_trade_day e)) ?w1
              [dataframe self1]
            = (None,
               ?w1\<lparr>fetched := fetched ?w1 @ trade_day_between e from_date (latest_trade_day e)\<rparr>,
               [dataframe self1])"
    using assms(4) by (rule fetch_loop_all)
  have "fetched ?w1 = fetched w"
    by (simp add: setup_dir_def)
  then show ?thesis
    using su sd fl by (simp add: update_def p finally_block_single)
qed

lemmas demo_defs = demo_env_def demo_frame_def demo_row_def no_files_def one_file_def

lemmas run_defs = update_def should_update_def start_date_def prepare_def load_def read_csv_def
  has_trade_date_def setup_dir_def os_path_exists_def file_path_data dirname_data demo_defs
  DataFrame_def df_empty_def base_date_ordinal ts_margin_detail_def sort_values_def shape_def
  not_tuple_def finally_block_def add_days_def MAXORDINAL_def init_def Let_def

section \<open>The claims\<close>

subsection \<open>What update does with the slices it fetches\<close>

text \<open>
  C1. The claim: when \<^verbatim>\<open>should_update()\<close> is true, \<^verbatim>\<open>update()\<close> fetches one slice per
  trading day from \<^verbatim>\<open>start_date()\<close> to the latest trading day, in order, merges the
  slices with the cached table and writes the result to the cache file. The run below
  starts without a cache file; the calendar has the two trading days 2014-09-22 and
  2014-09-23 and the provider answers one row for each. \<^verbatim>\<open>prepare()\<close> leaves the
  empty table in memory, \<^verbatim>\<open>should_update()\<close> is true, both days are fetched in order
  and no exception leaves the method, yet afterwards there is still no cache file: the
  guard \<^verbatim>\<open>if not df.shape\<close> kept both slices out of the list.
\<close>

theorem update_loses_fetched_slices:
  "prepare (setup_dir no_files (init ''data'')) (init ''data'')
     = Inr \<lparr>data_dir = ''data'', dataframe = Some DataFrame\<rparr>
   \<and> snd (should_update (demo_env 735499 0) (setup_dir no_files (init ''data''))
          \<lparr>data_dir = ''data'', dataframe = Some DataFrame\<rparr>) = Inr True
   \<and> fst (update (demo_env 735499 0) no_files (init ''data'')) = None
   \<and> fetched (fst (snd (update (demo_env 735499 0) no_files (init ''data'')))) = [735498, 735499]
   \<and> files (fst (snd (update (demo_env 735499 0) no_files (init ''data''))))
        (file_path (init ''data'')) = None"
  by (simp add: run_defs file_path_data [unfolded init_def])

text \<open>
  C2. Whatever the cache holds and whatever the provider answers, the guard
  \<^verbatim>\<open>not df.shape\<close> is false for every frame, because the shape is a tuple of two
  numbers; so the loop hands back the accumulation list it was given, a list of one
  entry stays a list of one entry, and \<^verbatim>\<open>update\<close> leaves every file as it was.
\<close>

theorem update_never_writes:
  "\<not> not_tuple (shape df)
   \<and> snd (snd (fetch_loop e ds w df_list)) = df_list
   \<and> length (snd (snd (fetch_loop e ds w [x]))) = 1
   \<and> files (fst (snd (update e w self))) = files w"
  by (simp add: shape_not_empty fetch_loop_df_list update_files)

text \<open>
  C3. The claim: when a fetch raises, the remaining days are not fetched, the slices
  fetched before are merged and written, and the exception reaches the caller. The run
  below starts without a cache file; the trading days are 2014-09-22, 23 and 24, and the
  provider raises on the 23rd. The exception reaches the caller and the 24th is not
  fetched, but the slice of the 22nd is not written: there is no cache file afterwards.
\<close>

theorem update_drops_partial_progress:
  "fst (update (demo_env 735500 735499) no_files (init ''data'')) = Some (Raised ''timeout'')
   \<and> fetched (fst (snd (update (demo_env 735500 735499) no_files (init ''data''))))
       = [735498, 735499]
   \<and> files (fst (snd (update (demo_env 735500 735499) no_files (init ''data''))))
        (file_path (init ''data'')) = None"
  by (simp add: run_defs file_path_data [unfolded init_def])

text \<open>
  C4. The claim: from an empty cache, \<^verbatim>\<open>update()\<close> produces a cache file with data
  that starts at the base date. The run below starts without a cache file and the base
  date is the latest trading day. \<^verbatim>\<open>start_date()\<close> is the base date and exactly that
  day is fetched, but the cache file does not exist afterwards.
\<close>

theorem update_leaves_cache_absent:
  "snd (start_date no_files (init ''data'')) = Inr base_date
   \<and> fetched (fst (snd (update (demo_env base_date 0) no_files (init ''data'')))) = [base_date]
   \<and> \<not> os_path_exists (fst (snd (update (demo_env base_date 0) no_files (init ''data''))))
         (file_path (init ''data''))"
  by (simp add: run_defs file_path_data [unfolded init_def])

subsection \<open>Idempotence\<close>

text \<open>
  C5. When the cache file exists and its largest trade date is the latest trading day,
  two runs of \<^verbatim>\<open>update()\<close> in a row leave the files as they were: the first run changes
  no file, and neither does the second, whatever the first one returned or raised. The
  model keeps a file as the table it holds; no run writes one, so its bytes stay.
\<close>

theorem update_twice_unchanged:
  assumes "files w (file_path self) = Some csv"
    and "max_trade_date csv = Some (latest_trade_day e)"
  shows "(let (raised1, w1, self1) = update e w self;
              (raised2, w2, self2) = update e w1 self1
          in files w1 = files w \<and> files w2 = files w1)"
  by (simp add: split_def update_files)

theorem update_twice_unchanged_witness:
  "(let w = one_file ''data/market/margin_trading_detail.csv''
              (demo_frame [demo_row 735498 ''000001.SZ'' ''100'']);
        (raised1, w1, self1) = update (demo_env 735498 0) w (init ''data'');
        (raised2, w2, self2) = update (demo_env 735498 0) w1 self1
    in files w1 = files w \<and> files w2 = files w1)"
proof -
  let ?csv = "demo_frame [demo_row 735498 ''000001.SZ'' ''100'']"
  let ?w = "one_file ''data/market/margin_trading_detail.csv'' ?csv"
  have a: "files ?w (file_path (init ''data'')) = Some ?csv"
    by (simp add: file_path_data one_file_def)
  have b: "max_trade_date ?csv = Some (latest_trade_day (demo_env 735498 0))"
    by (simp add: max_trade_date_def demo_defs row_date_def timestamp_date_def)
  show ?thesis
    using update_twice_unchanged [OF a b] by (simp add: Let_def)
qed

subsection \<open>The invariant of the cached table\<close>



subsection \<open>The start date\<close>

text \<open>
  C7. Take an object whose table in memory, if any, is as \<^verbatim>\<open>load\<close> leaves it, a cache
  file that, if it exists, has the \<^verbatim>\<open>trade_date\<close> column, and cached trade dates that
  are timestamps pandas can hold. Then \<^verbatim>\<open>start_date()\<close> returns the base date when the
  cached table is empty, and the day after the largest trade date of the cached table
  otherwise. It does not raise.
\<close>

theorem start_date_day_after_max:
  assumes "well_loaded self"
    and "cache_readable w self"
    and "valid_frame (cached_table w self)"
  shows "snd (start_date w self) =
           Inr (if df_empty (cached_table w self) then base_date
                else Max (set (map row_date (rows (cached_table w self)))) + 1)"
proof (cases "dataframe self")
  case (Some df)
  then have "sorted (map trade_date (rows df))" "df_empty df \<or> has_trade_date df"
    using assms(1) by (simp_all add: well_loaded_def)
  moreover have "valid_frame df"
    using assms(3) Some by (simp add: cached_table_def)
  ultimately show ?thesis
    using Some start_date_loaded [of self df w] by (simp add: cached_table_def)
next
  case None
  obtain self' where p: "prepare w self = Inr self'"
    using assms(2) prepare_readable by blast
  define df where "df = (case files w (file_path self) of
                           Some csv \<Rightarrow> sort_values csv | None \<Rightarrow> DataFrame)"
  have d: "dataframe self' = Some df"
    using prepare_result(1) [OF p] None by (simp add: df_def)
  have s: "sorted (map trade_date (rows df))"
    by (simp add: df_def DataFrame_def sort_values_sorted split: option.splits)
  have h: "df_empty df \<or> has_trade_date df"
    using assms(2)
    by (simp add: df_def DataFrame_def df_empty_def cache_readable_def
        sort_values_has_trade_date split: option.splits)
  have v: "valid_frame df"
    using assms(3) None
    by (simp add: df_def cached_table_def sort_values_valid split: option.splits)
  have "prepare w self' = Inr self'"
    using p by (rule prepare_again)
  then have "start_date w self = start_date w self'"
    using p by (simp add: start_date_def)
  then have "snd (start_date w self) =
      Inr (if df_empty df then base_date else Max (set (map row_date (rows df))) + 1)"
    using start_date_loaded [OF d s h v, of w] by simp
  moreover have "df_empty df = df_empty (cached_table w self)"
    using None by (simp add: df_def cached_table_def sort_values_empty split: option.splits)
  moreover have "set (rows df) = set (rows (cached_table w self))"
    using None by (simp add: df_def cached_table_def sort_values_set split: option.splits)
  ultimately show ?thesis
    by simp
qed

theorem start_date_day_after_max_witness:
  "well_loaded (init ''data'')
   \<and> snd (start_date (one_file ''data/market/margin_trading_detail.csv''
             (demo_frame [demo_row 735499 ''000002.SZ'' ''7'', demo_row 735498 ''000001.SZ'' ''5'']))
           (init ''data'')) = Inr 735500
   \<and> snd (start_date no_files (init ''data'')) = Inr base_date"
proof -
  let ?csv = "demo_frame [demo_row 735499 ''000002.SZ'' ''7'', demo_row 735498 ''000001.SZ'' ''5'']"
  let ?w = "one_file ''data/market/margin_trading_detail.csv'' ?csv"
  have o: "well_loaded (init ''data'')"
    by (rule init_well_loaded)
  have c: "cached_table ?w (init ''data'') = ?csv"
    by (simp add: cached_table_def file_path_data [unfolded init_def] one_file_def init_def)
  have n: "cached_table no_files (init ''data'') = DataFrame"
    by (simp add: cached_table_def no_files_def init_def)
  have r: "cache_readable ?w (init ''data'')"
    by (simp add: cache_readable_def file_path_data one_file_def demo_frame_def
        has_trade_date_def)
  have rn: "cache_readable no_files (init ''data'')"
    by (simp add: cache_readable_def no_files_def)
  have "valid_frame ?csv"
    by (simp add: valid_frame_def valid_timestamp_def demo_frame_def demo_row_def
        timestamp_date_def Timestamp_min_day_ordinal Timestamp_max_day_ordinal)
  then have v: "valid_frame (cached_table ?w (init ''data''))"
    by (simp only: c)
  have "valid_frame DataFrame"
    by (simp add: valid_frame_def DataFrame_def)
  then have vn: "valid_frame (cached_table no_files (init ''data''))"
    by (simp only: n)
  have m: "Max (set (map row_date (rows ?csv))) = 735499"
    by (simp add: demo_frame_def demo_row_def row_date_def timestamp_date_def)
  have ne: "\<not> df_empty ?csv"
    by (simp add: demo_frame_def df_empty_def)
  have e: "df_empty DataFrame"
    by (simp add: DataFrame_def df_empty_def)
  show ?thesis
    using start_date_day_after_max [OF o r v] start_date_day_after_max [OF o rn vn] m
    by (simp add: o c n ne e)
qed

text \<open>
  Outside these conditions \<^verbatim>\<open>start_date()\<close> raises: on a cache file without the
  \<^verbatim>\<open>trade_date\<close> column the exception of \<^verbatim>\<open>read_csv\<close> leaves it, and a table that ends
  on the last day of \<^verbatim>\<open>datetime.date\<close> has no day after.
\<close>

lemma start_date_unreadable:
  "dataframe self = None \<Longrightarrow> files w (file_path self) = Some csv \<Longrightarrow> \<not> has_trade_date csv \<Longrightarrow>
     \<exists>ex. start_date w self = (self, Inl ex)"
  using load_unreadable [of w self csv] by (auto simp: start_date_def prepare_def)

lemma start_date_overflow:
  "snd (start_date w \<lparr>data_dir = d,
          dataframe = Some (demo_frame [demo_row (date 9999 12 31) ''000001.SZ'' ''5''])\<rparr>)
     = Inl OverflowError"
  by (simp add: start_date_def prepare_loaded demo_frame_def demo_row_def df_empty_def
      has_trade_date_def timestamp_date_def add_days_overflow)

subsection \<open>Whether to update\<close>

text \<open>
  C8. With the helper as the specification describes it, and a cache file that, if it
  exists, has the \<^verbatim>\<open>trade_date\<close> column, \<^verbatim>\<open>should_update()\<close> returns true exactly when
  the cache file does not exist, or the largest trade date of the cached table is
  strictly older than the latest trading day.
\<close>

theorem should_update_iff:
  assumes "cache_readable w self"
  shows "snd (should_update (e\<lparr>need_update := need_update_by_trade_date (latest_trade_day e)\<rparr>)
                w self)
           = Inr (files w (file_path self) = None
                  \<or> (case max_trade_date (cached_table w self) of
                        None \<Rightarrow> False
                      | Some m \<Rightarrow> m < latest_trade_day e))"
proof (cases "files w (file_path self)")
  case None
  then show ?thesis
    by (simp add: should_update_def os_path_exists_def)
next
  case (Some csv)
  obtain self' where p: "prepare w self = Inr self'"
    using assms prepare_readable by blast
  obtain df where "dataframe self' = Some df"
    and "max_trade_date df = max_trade_date (cached_table w self)"
    using prepare_cached_max [OF p] by blast
  then show ?thesis
    using Some p
    by (simp add: should_update_def os_path_exists_def need_update_by_trade_date_def
        split: option.splits)
qed

theorem should_update_iff_witness:
  "snd (should_update (demo_env 735499 0)
          (one_file ''data/market/margin_trading_detail.csv''
             (demo_frame [demo_row 735498 ''000001.SZ'' ''100'']))
          (init ''data'')) = Inr True
   \<and> snd (should_update (demo_env 735498 0)
          (one_file ''data/market/margin_trading_detail.csv''
             (demo_frame [demo_row 735498 ''000001.SZ'' ''100'']))
          (init ''data'')) = Inr False
   \<and> snd (should_update (demo_env 735498 0) no_files (init ''data'')) = Inr True"
proof -
  let ?w = "one_file ''data/market/margin_trading_detail.csv''
              (demo_frame [demo_row 735498 ''000001.SZ'' ''100''])"
  have e: "(demo_env l 0)\<lparr>need_update := need_update_by_trade_date l\<rparr> = demo_env l 0" for l
    by (simp add: demo_env_def)
  have m: "max_trade_date (cached_table ?w (init ''data'')) = Some 735498"
    by (simp add: cached_table_def init_def file_path_data [unfolded init_def] one_file_def
        max_trade_date_def demo_frame_def demo_row_def row_date_def timestamp_date_def)
  have f: "files ?w (file_path (init ''data'')) \<noteq> None"
    by (simp add: file_path_data one_file_def)
  have l: "latest_trade_day (demo_env l 0) = l" for l
    by (simp add: demo_env_def)
  have r: "cache_readable ?w (init ''data'')"
    by (simp add: cache_readable_def file_path_data one_file_def demo_frame_def
        has_trade_date_def)
  have rn: "cache_readable no_files (init ''data'')"
    by (simp add: cache_readable_def no_files_def)
  show ?thesis
    using should_update_iff [OF r, of "demo_env 735499 0"]
      should_update_iff [OF r, of "demo_env 735498 0"]
      should_update_iff [OF rn, of "demo_env 735498 0"]
    by (simp add: e m f l no_files_def)
qed

text \<open>On a cache file without the column, \<^verbatim>\<open>should_update()\<close> raises.\<close>

lemma should_update_unreadable:
  "dataframe self = None \<Longrightarrow> files w (file_path self) = Some csv \<Longrightarrow> \<not> has_trade_date csv \<Longrightarrow>
     \<exists>ex. should_update e w self = (self, Inl ex)"
  using load_unreadable [of w self csv]
  by (auto simp: should_update_def os_path_exists_def prepare_def)

subsection \<open>Loading\<close>

text \<open>
  C9. Without a cache file, \<^verbatim>\<open>load()\<close> returns the empty table. With a cache file that
  has the \<^verbatim>\<open>trade_date\<close> column, it returns a table with the columns of the file and the
  rows of the file, each as often as the file has it, in ascending order of trade date.
  In both cases the table in memory is set to the table returned and nothing else of
  the object changes. The model keeps a file as the table its text denotes, the cells
  of \<^verbatim>\<open>trade_date\<close> as timestamps.
\<close>

theorem load_sorted_table:
  "(files w (file_path self) = None \<longrightarrow>
      load w self = Inr (self\<lparr>dataframe := Some DataFrame\<rparr>, DataFrame))
   \<and> (\<forall>csv. files w (file_path self) = Some csv \<and> has_trade_date csv \<longrightarrow>
         (\<exists>df. load w self = Inr (self\<lparr>dataframe := Some df\<rparr>, df)
               \<and> columns df = columns csv
               \<and> mset (rows df) = mset (rows csv)
               \<and> sorted (map trade_date (rows df))
               \<and> sorted (map row_date (rows df))))"
  by (auto simp: load_missing load_readable sort_values_columns sort_values_rows
      sort_values_sorted sorted_row_date)

theorem load_sorted_table_witness:
  "load (one_file ''data/market/margin_trading_detail.csv''
           (demo_frame [demo_row 735499 ''000002.SZ'' ''7'', demo_row 735498 ''000001.SZ'' ''5'']))
        (init ''data'')
     = Inr (\<lparr>data_dir = ''data'', dataframe = Some (demo_frame
              [demo_row 735498 ''000001.SZ'' ''5'', demo_row 735499 ''000002.SZ'' ''7''])\<rparr>,
            demo_frame [demo_row 735498 ''000001.SZ'' ''5'', demo_row 735499 ''000002.SZ'' ''7''])
   \<and> sorted (map row_date
        [demo_row 735498 ''000001.SZ'' ''5'', demo_row 735499 ''000002.SZ'' ''7''])
   \<and> load no_files (init ''data'')
     = Inr (\<lparr>data_dir = ''data'', dataframe = Some DataFrame\<rparr>, DataFrame)"
proof -
  let ?csv = "demo_frame [demo_row 735499 ''000002.SZ'' ''7'', demo_row 735498 ''000001.SZ'' ''5'']"
  let ?w = "one_file ''data/market/margin_trading_detail.csv'' ?csv"
  have f: "files ?w (file_path (init ''data'')) = Some ?csv"
    by (simp add: file_path_data one_file_def)
  have h: "has_trade_date ?csv"
    by (simp add: has_trade_date_def demo_frame_def)
  have l: "load ?w (init ''data'')
     = Inr (\<lparr>data_dir = ''data'', dataframe = Some (demo_frame
              [demo_row 735498 ''000001.SZ'' ''5'', demo_row 735499 ''000002.SZ'' ''7''])\<rparr>,
            demo_frame [demo_row 735498 ''000001.SZ'' ''5'', demo_row 735499 ''000002.SZ'' ''7''])"
    using load_readable [OF f h]
    by (simp add: sort_values_def demo_frame_def demo_row_def init_def)
  have fn: "files no_files (file_path (init ''data'')) = None"
    by (simp add: no_files_def)
  have "\<exists>df. load ?w (init ''data'') = Inr ((init ''data'')\<lparr>dataframe := Some df\<rparr>, df)
             \<and> sorted (map row_date (rows df))"
    using load_sorted_table [of ?w "init ''data''"] f h by blast
  moreover have "load no_files (init ''data'')
       = Inr ((init ''data'')\<lparr>dataframe := Some DataFrame\<rparr>, DataFrame)"
    using load_sorted_table [of no_files "init ''data''"] fn by blast
  ultimately show ?thesis
    using l by (auto simp: init_def demo_frame_def)
qed

subsection \<open>The path of the cache file\<close>

text \<open>
  C10. For every data directory the cache file is \<^verbatim>\<open>margin_trading_detail.csv\<close> in the
  directory \<^verbatim>\<open>market\<close> of the data directory: the components of the path are those of
  the data directory followed by these two, and the path is absolute exactly when the
  data directory is. As a string it is the data directory, a separator unless the data
  directory is empty or already ends in one, and \<^verbatim>\<open>market/margin_trading_detail.csv\<close>.
  \<^verbatim>\<open>load\<close> and \<^verbatim>\<open>should_update\<close> read no other file and the \<^verbatim>\<open>finally\<close> block of
  \<^verbatim>\<open>update\<close> writes no other file. The file is a table with a \<^verbatim>\<open>trade_date\<close> column:
  \<^verbatim>\<open>load\<close> returns a table from an existing file only when the file has that column, and
  a table the \<^verbatim>\<open>finally\<close> block writes has it.
\<close>

theorem file_path_of_data_dir:
  "components (file_path self)
     = components (data_dir self) @ [''market'', ''margin_trading_detail.csv'']
   \<and> is_absolute (file_path self) = is_absolute (data_dir self)
   \<and> file_path self =
       (if data_dir self = [] \<or> last (data_dir self) = sep
        then data_dir self @ ''market/margin_trading_detail.csv''
        else data_dir self @ ''/market/margin_trading_detail.csv'')
   \<and> (files w (file_path self) = files w' (file_path self) \<longrightarrow>
         load w self = load w' self \<and> should_update e w self = should_update e w' self)
   \<and> (\<forall>p. p \<noteq> file_path self \<longrightarrow>
         files (fst (snd (finally_block w self df_list))) p = files w p)
   \<and> (\<forall>csv self' df. files w (file_path self) = Some csv \<and> load w self = Inr (self', df) \<longrightarrow>
         has_trade_date csv \<and> has_trade_date df)
   \<and> (\<forall>df. files (fst (snd (finally_block w self df_list))) (file_path self) = Some df
             \<and> files w (file_path self) \<noteq> Some df \<longrightarrow> has_trade_date df)"
proof -
  let ?d = "data_dir self"
  let ?tail = "''market/margin_trading_detail.csv''"
  have str: "file_path self = (if ?d = [] \<or> last ?d = sep then ?d @ ?tail
                               else ?d @ ''/market/margin_trading_detail.csv'')"
    by (rule file_path_string)
  have slash: "''/market/margin_trading_detail.csv'' = sep # ?tail"
    by (simp add: sep_def)
  have comp: "components (file_path self) = components ?d @ components ?tail"
  proof (cases "?d = []")
    case True
    then show ?thesis
      using str by (simp add: components_def)
  next
    case False
    show ?thesis
    proof (cases "last ?d = sep")
      case True
      then have "?d = butlast ?d @ [sep]"
        using False by (metis append_butlast_last_id)
      then have "file_path self = butlast ?d @ sep # ?tail"
        "components ?d = components (butlast ?d)"
        using str True components_snoc_sep [of "butlast ?d"] by simp_all
      then show ?thesis
        by (simp add: components_append_sep)
    next
      case no_sep: False
      then have "file_path self = ?d @ sep # ?tail"
        using str False slash by simp
      then show ?thesis
        by (simp add: components_append_sep)
    qed
  qed
  have abs: "is_absolute (file_path self) = is_absolute ?d"
    using str by (cases ?d) (auto simp: is_absolute_def sep_def)
  have reads: "files w (file_path self) = files w' (file_path self) \<longrightarrow>
         load w self = load w' self \<and> should_update e w self = should_update e w' self"
    by (simp add: load_def should_update_def prepare_def os_path_exists_def)
  have writes: "\<forall>p. p \<noteq> file_path self \<longrightarrow>
         files (fst (snd (finally_block w self df_list))) p = files w p"
    by (simp add: finally_block_def Let_def split: sum.splits)
  have col: "\<forall>csv self' df. files w (file_path self) = Some csv \<and> load w self = Inr (self', df) \<longrightarrow>
         has_trade_date csv \<and> has_trade_date df"
    by (auto simp: load_def read_csv_def Let_def sort_values_has_trade_date split: if_splits)
  have mer: "\<forall>df. files (fst (snd (finally_block w self df_list))) (file_path self) = Some df
             \<and> files w (file_path self) \<noteq> Some df \<longrightarrow> has_trade_date df"
    by (auto simp: finally_block_def Let_def sort_values_has_trade_date
        split: sum.splits if_splits)
  show ?thesis
    using comp components_tail abs str reads writes col mer by simp
qed

theorem file_path_of_data_dir_witness:
  "file_path (init ''data'') = ''data/market/margin_trading_detail.csv''
   \<and> components (file_path (init ''/srv/data/''))
       = [''srv'', ''data'', ''market'', ''margin_trading_detail.csv'']
   \<and> is_absolute (file_path (init ''/srv/data/''))
   \<and> components (file_path (init [])) = [''market'', ''margin_trading_detail.csv'']
   \<and> \<not> is_absolute (file_path (init []))"
proof -
  have c: "components ''/srv/data/'' = [''srv'', ''data'']" "components [] = []"
    by (simp_all add: components_def sep_def)
  have a: "is_absolute ''/srv/data/''" "\<not> is_absolute []"
    by (simp_all add: is_absolute_def sep_def)
  have d: "data_dir (init x) = x" for x
    by (simp add: init_def)
  have "file_path (init ''data'') =
          (if data_dir (init ''data'') = [] \<or> last (data_dir (init ''data'')) = sep
           then data_dir (init ''data'') @ ''market/margin_trading_detail.csv''
           else data_dir (init ''data'') @ ''/market/margin_trading_detail.csv'')"
    by (rule file_path_of_data_dir [THEN conjunct2, THEN conjunct2, THEN conjunct1])
  then have p1: "file_path (init ''data'') = ''data/market/margin_trading_detail.csv''"
    by (simp add: d sep_def)
  have "components (file_path (init ''/srv/data/''))
          = components (data_dir (init ''/srv/data/'')) @ [''market'', ''margin_trading_detail.csv'']"
    by (rule file_path_of_data_dir [THEN conjunct1])
  then have p2: "components (file_path (init ''/srv/data/''))
          = [''srv'', ''data'', ''market'', ''margin_trading_detail.csv'']"
    by (simp add: d c)
  have "is_absolute (file_path (init ''/srv/data/'')) = is_absolute (data_dir (init ''/srv/data/''))"
    by (rule file_path_of_data_dir [THEN conjunct2, THEN conjunct1])
  then have p3: "is_absolute (file_path (init ''/srv/data/''))"
    by (simp add: d a)
  have "components (file_path (init [])) =
          components (data_dir (init [])) @ [''market'', ''margin_trading_detail.csv'']"
    by (rule file_path_of_data_dir [THEN conjunct1])
  then have p4: "components (file_path (init [])) = [''market'', ''margin_trading_detail.csv'']"
    by (simp add: d c)
  have "is_absolute (file_path (init [])) = is_absolute (data_dir (init []))"
    by (rule file_path_of_data_dir [THEN conjunct2, THEN conjunct1])
  then have p5: "\<not> is_absolute (file_path (init []))"
    by (simp add: d a)
  show ?thesis
    using p1 p2 p3 p4 p5 by blast
qed

end
